theory Spec2Isabelle
  imports Main "HOL-Library.AList"
begin

section \<open>Data model of client.go\<close>

text \<open>
  The Go maps of the client are modelled in two ways. The caller's table/column
  restriction \<open>tableCols\<close> is iterated with \<open>range\<close>, so it is an association list with
  distinct keys whose list order stands for the order in which the runtime happens to
  enumerate the map; every theorem below holds for all such lists, hence for every
  enumeration order. Maps that are only looked up (the schema's tables, the request set
  handed to the library) are partial functions.
\<close>

type_synonym Row = "string \<rightharpoonup> string"
type_synonym TableUpdates = "string \<rightharpoonup> (string \<rightharpoonup> Row)"
type_synonym Cache = "string \<rightharpoonup> (string \<rightharpoonup> Row)"
type_synonym TLSConfig = string

record TableSchema =
  SchemaColumns :: "string list"

record DatabaseSchema =
  Tables :: "string \<rightharpoonup> TableSchema"

record MonitorSelect =
  Initial :: bool
  Insert :: bool
  Delete :: bool
  Modify :: bool

record MonitorRequest =
  Columns :: "string list"
  Select :: MonitorSelect

type_synonym Requests = "string \<rightharpoonup> MonitorRequest"

text \<open>
  Errors are values. \<open>InvalidDb\<close>, \<open>ColumnsNotSupported\<close> and \<open>TableNotSupported\<close> are the
  three \<open>fmt.Errorf\<close> values client.go creates itself; \<open>LibError\<close> is an error handed back
  by the libovsdb collaborator (transport, subscription, transaction).
  A \<open>fault\<close> is a run-time panic.
\<close>

datatype error =
    InvalidDb
  | ColumnsNotSupported
  | TableNotSupported string string
  | LibError string

datatype fault = NilDereference

fun is_config_error :: "error \<Rightarrow> bool" where
  "is_config_error InvalidDb = True"
| "is_config_error ColumnsNotSupported = True"
| "is_config_error (TableNotSupported t d) = True"
| "is_config_error (LibError m) = False"

text \<open>
  The handle \<open>*libovsdb.OvsdbClient\<close>: the schemas fetched when the transport was opened,
  and the remote store's answers to a \<open>Monitor\<close> and to a \<open>Transact\<close> call (for a
  transaction, one entry per operation: the identifier of the row it allocated, if any).
  \<open>conn_id\<close> names the transport so that a later \<open>Disconnect\<close> can be attributed to it.
  A row operation is kept as its kind and its table.
\<close>

datatype Operation =
    OpInsert string
  | OpUpdate string
  | OpMutate string
  | OpDelete string

record OvnCommand =
  Operations :: "Operation list"

record OvsdbClient =
  conn_id :: nat
  Schema :: "string \<rightharpoonup> DatabaseSchema"
  Monitor :: "string \<Rightarrow> Requests \<Rightarrow> string + TableUpdates"
  Transact :: "string \<Rightarrow> Operation list \<Rightarrow> string + string option list"

datatype callback = Callback nat

record ovndb =
  client :: "OvsdbClient option"
  cache :: Cache
  signalCB :: "callback option"
  disconnectCB :: "callback option"
  db :: string
  addr :: string
  tableCols :: "(string \<times> string list) list"
  tlsConfig :: "TLSConfig option"
  reconn :: bool

text \<open>
  Calls into the collaborators (libovsdb, the logger, the ticker), in the order the code
  makes them.
\<close>

datatype log_line =
    LogDisconnected string
  | LogReconnectFailed string error
  | LogReconnectSuppressed string error
  | LogReconnected string int

datatype effect =
    EffConnect string "TLSConfig option"
  | EffMonitor string Requests
  | EffDisconnect nat
  | EffRegister nat
  | EffTransact string "Operation list"
  | EffLog log_line
  | EffNewTicker nat
  | EffTickerStop

text \<open>
  Modelled from the spec: the constants \<open>DBNB\<close> and \<open>DBSB\<close> are declared outside
  client.go. They are the two fixed database identities; the comment in \<open>NewClient\<close>
  gives their values.
\<close>

definition DBNB :: string where
  "DBNB = ''OVN_Northbound''"

definition DBSB :: string where
  "DBSB = ''OVN_Southbound''"

text \<open>The fields of \<open>Config\<close> that \<open>NewClient\<close> reads.\<close>

record Config =
  Db :: string
  Addr :: string
  TableCols :: "(string \<times> string list) list"
  TLSConfig :: "TLSConfig option"
  Reconnect :: bool
  SignalCB :: "callback option"
  DisconnectCB :: "callback option"

text \<open>
  What client.go uses but does not declare is a parameter: the two canonical table lists
  and the cache bulk load \<open>populateCache\<close>, which client.go calls as a statement and
  whose result, if any, it ignores.
\<close>

record deps =
  NBTablesOrder :: "string list"
  SBTablesOrder :: "string list"
  populateCache :: "TableUpdates \<Rightarrow> Cache \<Rightarrow> Cache"

section \<open>Schema negotiation and the monitor request set\<close>

text \<open>\<open>GetSchema\<close>: \<open>c.client.Schema[c.db]\<close>. A missing key yields the zero schema.\<close>

definition GetSchema :: "ovndb \<Rightarrow> fault + DatabaseSchema" where
  "GetSchema c =
     (case client c of
        None \<Rightarrow> Inl NilDereference
      | Some h \<Rightarrow>
          (case Schema h (db c) of
             None \<Rightarrow> Inr \<lparr>Tables = Map.empty\<rparr>
           | Some s \<Rightarrow> Inr s))"

definition filterTablesFromSchema :: "deps \<Rightarrow> ovndb \<Rightarrow> fault + string list" where
  "filterTablesFromSchema D c =
     (let tables = (if db c = DBNB then NBTablesOrder D else SBTablesOrder D)
      in case GetSchema c of
           Inl f \<Rightarrow> Inl f
         | Inr dbSchema \<Rightarrow> Inr (filter (\<lambda>table. Tables dbSchema table \<noteq> None) tables))"

text \<open>The three loops of \<open>MonitorTables\<close>.\<close>

definition supportedTableMaps :: "string list \<Rightarrow> (string \<rightharpoonup> bool)" where
  "supportedTableMaps tables = fold (\<lambda>table m. m(table \<mapsto> True)) tables Map.empty"

fun checkTableCols ::
  "(string \<rightharpoonup> bool) \<Rightarrow> string \<Rightarrow> (string \<times> string list) list \<Rightarrow> error option" where
  "checkTableCols supported d [] = None"
| "checkTableCols supported d ((table, columns) # rest) =
     (if supported table \<noteq> None
      then (if columns \<noteq> [] then Some ColumnsNotSupported
            else checkTableCols supported d rest)
      else Some (TableNotSupported table d))"

definition defaultTableCols :: "string list \<Rightarrow> (string \<times> string list) list" where
  "defaultTableCols tables = fold (\<lambda>table m. AList.update table [] m) tables []"

definition selectAll :: MonitorSelect where
  "selectAll = \<lparr>Initial = True, Insert = True, Delete = True, Modify = True\<rparr>"

definition monitorRequests :: "(string \<times> string list) list \<Rightarrow> Requests" where
  "monitorRequests tc =
     fold (\<lambda>(table, columns) m. m(table \<mapsto> \<lparr>Columns = columns, Select = selectAll\<rparr>))
       tc Map.empty"

text \<open>The Go result of \<open>c.client.Monitor(db, jsonContext, requests)\<close> on a live handle.\<close>

definition libMonitor :: "OvsdbClient \<Rightarrow> string \<Rightarrow> Requests \<Rightarrow> error + TableUpdates" where
  "libMonitor h d requests =
     (case Monitor h d requests of Inl m \<Rightarrow> Inl (LibError m) | Inr u \<Rightarrow> Inr u)"

text \<open>
  \<open>MonitorTables\<close> returns the client as it leaves it, the collaborator calls it made
  and its Go result (error or initial snapshot).
\<close>

definition MonitorTables ::
  "deps \<Rightarrow> ovndb \<Rightarrow> fault + (ovndb \<times> effect list \<times> (error + TableUpdates))" where
  "MonitorTables D c =
     (case filterTablesFromSchema D c of
        Inl f \<Rightarrow> Inl f
      | Inr tables \<Rightarrow>
          (case (if tableCols c \<noteq> []
                 then (case checkTableCols (supportedTableMaps tables) (db c) (tableCols c) of
                         Some e \<Rightarrow> Inl e
                       | None \<Rightarrow> Inr c)
                 else Inr (c\<lparr>tableCols := defaultTableCols tables\<rparr>)) of
             Inl e \<Rightarrow> Inr (c, [], Inl e)
           | Inr c' \<Rightarrow>
               (case client c' of
                  None \<Rightarrow> Inl NilDereference
                | Some h \<Rightarrow>
                    (let requests = monitorRequests (tableCols c')
                     in Inr (c', [EffMonitor (db c') requests],
                             libMonitor h (db c') requests)))))"

text \<open>
  \<open>MonitorTables\<close> up to, and without, the request loop (client.go lines 393 to 418):
  the computed subset, the check of a supplied restriction, the defaulting when none was
  supplied. Its result is the configuration error, or the client as the negotiation
  leaves it.
\<close>

definition negotiateTables :: "deps \<Rightarrow> ovndb \<Rightarrow> fault + (error + ovndb)" where
  "negotiateTables D c =
     (case filterTablesFromSchema D c of
        Inl f \<Rightarrow> Inl f
      | Inr tables \<Rightarrow>
          Inr (if tableCols c \<noteq> []
               then (case checkTableCols (supportedTableMaps tables) (db c) (tableCols c) of
                       Some e \<Rightarrow> Inl e
                     | None \<Rightarrow> Inr c)
               else Inr (c\<lparr>tableCols := defaultTableCols tables\<rparr>)))"

section \<open>Connection lifecycle\<close>

text \<open>
  \<open>libovsdb.Connect\<close> is the remote side's behaviour: for an address and security
  material it yields a handle or an error.
\<close>

type_synonym dial = "string \<Rightarrow> TLSConfig option \<Rightarrow> string + OvsdbClient"

text \<open>
  \<open>connect\<close>. The deferred function runs when \<open>err\<close> is set after the handle was stored:
  it disconnects \<open>c.client\<close> and sets it to nil. A failed \<open>libovsdb.Connect\<close> returns
  before the handle is stored and before the deferred function exists.
\<close>

definition connect ::
  "deps \<Rightarrow> dial \<Rightarrow> ovndb \<Rightarrow> fault + (ovndb \<times> effect list \<times> error option)" where
  "connect D dl c =
     (case dl (addr c) (tlsConfig c) of
        Inl m \<Rightarrow> Inr (c, [EffConnect (addr c) (tlsConfig c)], Some (LibError m))
      | Inr ovsdb \<Rightarrow>
          (case MonitorTables D (c\<lparr>client := Some ovsdb\<rparr>) of
             Inl f \<Rightarrow> Inl f
           | Inr (c1, effs, Inl err) \<Rightarrow>
               (case client c1 of
                  None \<Rightarrow> Inl NilDereference
                | Some h \<Rightarrow>
                    Inr (c1\<lparr>client := None\<rparr>,
                         EffConnect (addr c) (tlsConfig c) # effs @ [EffDisconnect (conn_id h)],
                         Some err))
           | Inr (c1, effs, Inr initial) \<Rightarrow>
               Inr (c1\<lparr>cache := populateCache D initial (cache c1)\<rparr>,
                    EffConnect (addr c) (tlsConfig c) # effs @ [EffRegister (conn_id ovsdb)],
                    None)))"

text \<open>The struct \<open>NewClient\<close> builds for a resolved database identity.\<close>

definition new_ovndb :: "string \<Rightarrow> Config \<Rightarrow> ovndb" where
  "new_ovndb d cfg =
     \<lparr>client = None, cache = Map.empty, signalCB = SignalCB cfg,
      disconnectCB = DisconnectCB cfg, db = d, addr = Addr cfg,
      tableCols = TableCols cfg, tlsConfig = TLSConfig cfg, reconn = Reconnect cfg\<rparr>"

text \<open>The \<open>switch db\<close> that opens \<open>NewClient\<close>, cases in the source's order.\<close>

definition resolveDb :: "string \<Rightarrow> error + string" where
  "resolveDb d =
     (if d = DBNB \<or> d = DBSB then Inr d
      else if d = [] then Inr DBNB
      else Inl InvalidDb)"

definition NewClient ::
  "deps \<Rightarrow> dial \<Rightarrow> Config \<Rightarrow> fault + (effect list \<times> (error + ovndb))" where
  "NewClient D dl cfg =
     (case resolveDb (Db cfg) of
        Inl e \<Rightarrow> Inr ([], Inl e)
      | Inr d \<Rightarrow>
          (case connect D dl (new_ovndb d cfg) of
             Inl f \<Rightarrow> Inl f
           | Inr (c', effs, Some err) \<Rightarrow> Inr (effs, Inl err)
           | Inr (c', effs, None) \<Rightarrow> Inr (effs, Inr c')))"

text \<open>
  The reconnect loop. \<open>retry\<close> is a Go \<open>int\<close>; \<open>go_int\<close> is its 64-bit wrap-around.
  The remote side may answer each attempt differently: \<open>dials k\<close> is its behaviour at
  the \<open>k\<close>-th tick the loop receives. The loop has no exit but a successful connect (or a
  panic), so its model is a partial function: \<open>None\<close> is the loop that never returns.
\<close>

definition go_int :: "int \<Rightarrow> int" where
  "go_int x = (x + 2 ^ 63) mod 2 ^ 64 - 2 ^ 63"

definition failure_log :: "string \<Rightarrow> int \<Rightarrow> error \<Rightarrow> effect list" where
  "failure_log a retry err =
     (if retry < 10 then [EffLog (LogReconnectFailed a err)]
      else if retry = 10 then [EffLog (LogReconnectSuppressed a err)]
      else [])"

partial_function (option) reconnect_loop ::
  "deps \<Rightarrow> (nat \<Rightarrow> dial) \<Rightarrow> nat \<Rightarrow> ovndb \<Rightarrow> int \<Rightarrow> effect list
     \<Rightarrow> (fault + ovndb \<times> effect list) option" where
  "reconnect_loop D dials tick c retry tr =
     (case connect D (dials tick) c of
        Inl f \<Rightarrow> Some (Inl f)
      | Inr (c', effs, r) \<Rightarrow>
          (case r of
             Some err \<Rightarrow>
               reconnect_loop D dials (Suc tick) c' (go_int (retry + 1))
                 (tr @ effs @ failure_log (addr c') retry err)
           | None \<Rightarrow>
               Some (Inr (c', tr @ effs @ [EffLog (LogReconnected (addr c') retry),
                                           EffTickerStop]))))"

definition reconnect ::
  "deps \<Rightarrow> (nat \<Rightarrow> dial) \<Rightarrow> ovndb \<Rightarrow> (fault + ovndb \<times> effect list) option" where
  "reconnect D dials c =
     reconnect_loop D dials 0 c 0 [EffNewTicker 500, EffLog (LogDisconnected (addr c))]"

text \<open>
  \<open>Close\<close>: \<open>c.client.Disconnect()\<close> goes through the pointer \<open>c.client\<close>, then nil is
  returned. The handle stays in the struct.
\<close>

definition Close :: "ovndb \<Rightarrow> fault + (ovndb \<times> effect list \<times> error option)" where
  "Close c =
     (case client c of
        None \<Rightarrow> Inl NilDereference
      | Some h \<Rightarrow> Inr (c, [EffDisconnect (conn_id h)], None))"

section \<open>Transaction executor\<close>

text \<open>
  Modelled from the spec: \<open>execute\<close> and \<open>executeR\<close>, to which \<open>Execute\<close> and \<open>ExecuteR\<close>
  of client.go delegate, are not in client.go. The spec (4.5): zero or more row
  operations are accepted; with zero operations the call succeeds with no transaction
  sent; otherwise one transaction is submitted and the result is a single error or,
  for the identifier-returning variant, the identifiers of the rows allocated, in
  submission order, operations that allocate none contributing no entry.
\<close>

definition executeR ::
  "ovndb \<Rightarrow> OvnCommand list \<Rightarrow> fault + (effect list \<times> (error + string list))" where
  "executeR c cmds =
     (let ops = concat (map Operations cmds)
      in if ops = [] then Inr ([], Inr [])
         else (case client c of
                 None \<Rightarrow> Inl NilDereference
               | Some h \<Rightarrow>
                   (case Transact h (db c) ops of
                      Inl m \<Rightarrow> Inr ([EffTransact (db c) ops], Inl (LibError m))
                    | Inr results \<Rightarrow>
                        Inr ([EffTransact (db c) ops], Inr (List.map_filter id results)))))"

definition execute ::
  "ovndb \<Rightarrow> OvnCommand list \<Rightarrow> fault + (effect list \<times> error option)" where
  "execute c cmds =
     (case executeR c cmds of
        Inl f \<Rightarrow> Inl f
      | Inr (effs, Inl e) \<Rightarrow> Inr (effs, Some e)
      | Inr (effs, Inr uuids) \<Rightarrow> Inr (effs, None))"

definition Execute ::
  "ovndb \<Rightarrow> OvnCommand list \<Rightarrow> fault + (effect list \<times> error option)" where
  "Execute c cmds = execute c cmds"

definition ExecuteR ::
  "ovndb \<Rightarrow> OvnCommand list \<Rightarrow> fault + (effect list \<times> (error + string list))" where
  "ExecuteR c cmds = executeR c cmds"

section \<open>A concrete deployment\<close>

text \<open>
  A northbound store whose schema has two of the three tables the client knows, used to
  run the definitions on concrete inputs.
\<close>

definition example_handle :: OvsdbClient where
  "example_handle =
     \<lparr>conn_id = 1,
      Schema = [DBNB \<mapsto> \<lparr>Tables = [''Logical_Switch'' \<mapsto> \<lparr>SchemaColumns = [''name'']\<rparr>,
                                   ''ACL'' \<mapsto> \<lparr>SchemaColumns = [''match'']\<rparr>]\<rparr>],
      Monitor = (\<lambda>d r. Inr Map.empty),
      Transact = (\<lambda>d ops. Inr (map (\<lambda>x. None) ops))\<rparr>"

definition example_deps :: deps where
  "example_deps =
     \<lparr>NBTablesOrder = [''Logical_Switch'', ''ACL'', ''Meter''],
      SBTablesOrder = [''Chassis''],
      populateCache = (\<lambda>u k. k ++ u)\<rparr>"

definition example_client :: ovndb where
  "example_client =
     \<lparr>client = Some example_handle, cache = Map.empty, signalCB = None,
      disconnectCB = None, db = DBNB, addr = ''tcp:127.0.0.1:6641'',
      tableCols = [], tlsConfig = None, reconn = True\<rparr>"

definition example_cfg :: Config where
  "example_cfg =
     \<lparr>Db = DBNB, Addr = ''tcp:127.0.0.1:6641'', TableCols = [], TLSConfig = None,
      Reconnect = True, SignalCB = None, DisconnectCB = None\<rparr>"

text \<open>A remote side that accepts every connection, and one that refuses every one.\<close>

definition example_dial :: dial where
  "example_dial a t = Inr example_handle"

definition refusing_dial :: dial where
  "refusing_dial a t = Inl ''connection refused''"

text \<open>A store that is back at the third tick, and one that never comes back.\<close>

definition example_dials :: "nat \<Rightarrow> dial" where
  "example_dials k = (if k < 2 then refusing_dial else example_dial)"

definition refusing_dials :: "nat \<Rightarrow> dial" where
  "refusing_dials k = refusing_dial"

section \<open>Properties of the negotiation loops\<close>

lemma fold_supported:
  "dom (fold (\<lambda>table m. m(table \<mapsto> True)) ts m0) = set ts \<union> dom m0"
  by (induction ts arbitrary: m0) auto

lemma dom_supportedTableMaps: "dom (supportedTableMaps tables) = set tables"
  by (simp add: supportedTableMaps_def fold_supported)

lemma checkTableCols_None_iff:
  "checkTableCols supported d tc = None \<longleftrightarrow>
     (\<forall>(t, cols) \<in> set tc. t \<in> dom supported \<and> cols = [])"
proof (induction tc)
  case Nil
  show ?case by simp
next
  case (Cons p tc)
  obtain t cols where p: "p = (t, cols)" by (cases p)
  show ?case using Cons.IH by (simp add: p domIff)
qed

lemma checkTableCols_Some:
  "checkTableCols supported d tc = Some e \<Longrightarrow>
     e = ColumnsNotSupported \<or> (\<exists>t. t \<in> fst ` set tc \<and> e = TableNotSupported t d)"
proof (induction tc)
  case Nil
  then show ?case by simp
next
  case (Cons p tc)
  obtain t cols where p: "p = (t, cols)" by (cases p)
  show ?case
  proof (cases "supported t \<noteq> None \<and> cols = []")
    case True
    with Cons.prems have "checkTableCols supported d tc = Some e" by (simp add: p)
    from Cons.IH[OF this] show ?thesis by auto
  next
    case False
    with Cons.prems show ?thesis by (auto simp: p split: if_splits)
  qed
qed

lemma fold_requests:
  "fold (\<lambda>(table, columns) m. m(table \<mapsto> \<lparr>Columns = columns, Select = selectAll\<rparr>)) tc m0 t
     = (case map_of (rev tc) t of None \<Rightarrow> m0 t
        | Some cols \<Rightarrow> Some \<lparr>Columns = cols, Select = selectAll\<rparr>)"
  by (induction tc arbitrary: m0) (auto simp: map_add_def split: option.splits)

lemma monitorRequests_apply:
  "monitorRequests tc t = map_option (\<lambda>cols. \<lparr>Columns = cols, Select = selectAll\<rparr>) (map_of (rev tc) t)"
  by (simp add: monitorRequests_def fold_requests split: option.splits)

lemma dom_monitorRequests: "dom (monitorRequests tc) = fst ` set tc"
proof -
  have "dom (monitorRequests tc) = dom (map_of (rev tc))"
    by (auto simp: monitorRequests_apply domIff)
  then show ?thesis by (simp add: dom_map_of_conv_image_fst)
qed







lemma filterTablesFromSchema_live:
  "client c = Some h \<Longrightarrow>
     \<exists>sch. GetSchema c = Inr sch \<and>
       filterTablesFromSchema D c =
         Inr (filter (\<lambda>t. t \<in> dom (Tables sch))
                (if db c = DBNB then NBTablesOrder D else SBTablesOrder D))"
  by (auto simp: filterTablesFromSchema_def GetSchema_def domIff split: option.splits)

lemma filterTablesFromSchema_client:
  "filterTablesFromSchema D c = Inr tables \<Longrightarrow> \<exists>h. client c = Some h"
  by (auto simp: filterTablesFromSchema_def GetSchema_def Let_def split: option.splits)

lemma MonitorTables_restricted:
  "client c = Some h \<Longrightarrow> tableCols c \<noteq> [] \<Longrightarrow> filterTablesFromSchema D c = Inr tables \<Longrightarrow>
     MonitorTables D c =
       (case checkTableCols (supportedTableMaps tables) (db c) (tableCols c) of
          Some e \<Rightarrow> Inr (c, [], Inl e)
        | None \<Rightarrow> Inr (c, [EffMonitor (db c) (monitorRequests (tableCols c))],
                        libMonitor h (db c) (monitorRequests (tableCols c))))"
  by (simp add: MonitorTables_def Let_def split: option.splits)

lemma MonitorTables_default:
  "client c = Some h \<Longrightarrow> tableCols c = [] \<Longrightarrow> filterTablesFromSchema D c = Inr tables \<Longrightarrow>
     MonitorTables D c =
       Inr (c\<lparr>tableCols := defaultTableCols tables\<rparr>,
            [EffMonitor (db c) (monitorRequests (defaultTableCols tables))],
            libMonitor h (db c) (monitorRequests (defaultTableCols tables)))"
  by (simp add: MonitorTables_def Let_def)

lemma example_filter:
  "client c = Some example_handle \<Longrightarrow> db c = DBNB \<Longrightarrow>
     filterTablesFromSchema example_deps c = Inr [''Logical_Switch'', ''ACL'']"
  by (simp add: filterTablesFromSchema_def GetSchema_def example_handle_def example_deps_def
      DBNB_def)

lemma example_default:
  "MonitorTables example_deps example_client
     = Inr (example_client\<lparr>tableCols := [(''Logical_Switch'', []), (''ACL'', [])]\<rparr>,
            [EffMonitor DBNB (monitorRequests [(''Logical_Switch'', []), (''ACL'', [])])],
            Inr Map.empty)"
proof -
  have h: "client example_client = Some example_handle"
    and e: "tableCols example_client = []" and d: "db example_client = DBNB"
    by (simp_all add: example_client_def)
  have tc: "defaultTableCols [''Logical_Switch'', ''ACL'']
              = [(''Logical_Switch'', []), (''ACL'', [])]"
    by (simp add: defaultTableCols_def)
  have m: "libMonitor example_handle d r = Inr Map.empty" for d r
    by (simp add: libMonitor_def example_handle_def)
  show ?thesis
    by (simp add: MonitorTables_default[OF h e example_filter[OF h d]] tc m d)
qed

text \<open>
  Claim C1, as stated, fails on the code: the empty map is a restriction map that names
  only tables of the computed subset and gives each an empty column list, and the code
  treats it as no restriction at all. On the concrete deployment no table is named and
  both tables of the computed subset are monitored.
\<close>

theorem empty_restriction_monitors_all:
  "tableCols example_client = []
   \<and> filterTablesFromSchema example_deps example_client = Inr [''Logical_Switch'', ''ACL'']
   \<and> MonitorTables example_deps example_client
       = Inr (example_client\<lparr>tableCols := [(''Logical_Switch'', []), (''ACL'', [])]\<rparr>,
              [EffMonitor DBNB (monitorRequests [(''Logical_Switch'', []), (''ACL'', [])])],
              Inr Map.empty)
   \<and> dom (monitorRequests [(''Logical_Switch'', []), (''ACL'', [])])
       = {''Logical_Switch'', ''ACL''}
   \<and> dom (monitorRequests [(''Logical_Switch'', []), (''ACL'', [])])
       \<noteq> fst ` set (tableCols example_client)"
proof -
  have h: "client example_client = Some example_handle"
    and d: "db example_client = DBNB" and e: "tableCols example_client = []"
    by (simp_all add: example_client_def)
  have dm: "dom (monitorRequests [(''Logical_Switch'', []), (''ACL'', [])])
       = {''Logical_Switch'', ''ACL''}"
    by (simp add: dom_monitorRequests)
  show ?thesis
    using example_default example_filter[OF h d] by (simp add: e dm)
qed

text \<open>
  Claim C1, amended. When the restriction map is not empty, names only tables of the
  computed schema subset and gives each an empty column list, \<open>MonitorTables\<close> raises no
  configuration error and hands the library a request set whose tables are exactly those
  named in the map; the client is left as it was. The computed subset is the canonical
  list of the database identity with the tables the fetched schema lacks dropped, in
  canonical order, and enumerating the canonical list yields the monitored tables in that
  order.
\<close>

theorem negotiation_restriction_exact:
  assumes h: "client c = Some h"
    and ne: "tableCols c \<noteq> []"
    and ft: "filterTablesFromSchema D c = Inr tables"
    and ok: "\<forall>(t, cols) \<in> set (tableCols c). t \<in> set tables \<and> cols = []"
  shows "MonitorTables D c =
           Inr (c, [EffMonitor (db c) (monitorRequests (tableCols c))],
                libMonitor h (db c) (monitorRequests (tableCols c)))
         \<and> dom (monitorRequests (tableCols c)) = fst ` set (tableCols c)
         \<and> (\<exists>sch. GetSchema c = Inr sch \<and>
               tables = filter (\<lambda>t. t \<in> dom (Tables sch))
                          (if db c = DBNB then NBTablesOrder D else SBTablesOrder D))
         \<and> filter (\<lambda>t. t \<in> dom (monitorRequests (tableCols c)))
               (if db c = DBNB then NBTablesOrder D else SBTablesOrder D)
             = filter (\<lambda>t. t \<in> fst ` set (tableCols c)) tables"
proof -
  have chk: "checkTableCols (supportedTableMaps tables) (db c) (tableCols c) = None"
    using ok by (simp add: checkTableCols_None_iff dom_supportedTableMaps)
  have run: "MonitorTables D c =
           Inr (c, [EffMonitor (db c) (monitorRequests (tableCols c))],
                libMonitor h (db c) (monitorRequests (tableCols c)))"
    using chk by (simp add: MonitorTables_restricted[OF h ne ft])
  obtain sch where sch: "GetSchema c = Inr sch"
    and tabs: "tables = filter (\<lambda>t. t \<in> dom (Tables sch))
                          (if db c = DBNB then NBTablesOrder D else SBTablesOrder D)"
    using filterTablesFromSchema_live[OF h, of D] ft by auto
  have sub: "fst ` set (tableCols c) \<subseteq> set tables"
    using ok by auto
  have ord: "filter (\<lambda>t. t \<in> dom (monitorRequests (tableCols c)))
               (if db c = DBNB then NBTablesOrder D else SBTablesOrder D)
             = filter (\<lambda>t. t \<in> fst ` set (tableCols c)) tables"
  proof -
    have "t \<in> fst ` set (tableCols c) \<Longrightarrow> t \<in> dom (Tables sch)" for t
      using sub tabs by (auto split: if_splits)
    then show ?thesis
      by (subst tabs) (auto simp: dom_monitorRequests intro!: filter_cong)
  qed
  show ?thesis using run sch tabs ord by (simp add: dom_monitorRequests)
qed

theorem negotiation_restriction_exact_witness:
  "MonitorTables example_deps (example_client\<lparr>tableCols := [(''ACL'', [])]\<rparr>) =
     Inr (example_client\<lparr>tableCols := [(''ACL'', [])]\<rparr>,
          [EffMonitor DBNB (monitorRequests [(''ACL'', [])])], Inr Map.empty)
   \<and> dom (monitorRequests [(''ACL'', [])]) = {''ACL''}
   \<and> filterTablesFromSchema example_deps (example_client\<lparr>tableCols := [(''ACL'', [])]\<rparr>)
       = Inr [''Logical_Switch'', ''ACL'']"
proof -
  let ?c = "example_client\<lparr>tableCols := [(''ACL'', [])]\<rparr>"
  have h: "client ?c = Some example_handle" by (simp add: example_client_def)
  have ne: "tableCols ?c \<noteq> []" by simp
  have ft: "filterTablesFromSchema example_deps ?c = Inr [''Logical_Switch'', ''ACL'']"
    by (simp add: filterTablesFromSchema_def GetSchema_def example_client_def
        example_handle_def example_deps_def DBNB_def)
  have ok: "\<forall>(t, cols) \<in> set (tableCols ?c). t \<in> set [''Logical_Switch'', ''ACL''] \<and> cols = []"
    by simp
  show ?thesis
    using negotiation_restriction_exact[OF h ne ft ok] ft
    by (simp add: example_client_def example_handle_def libMonitor_def)
qed

text \<open>
  Claim C2. A restriction map in which some table has a non-empty column list makes
  \<open>MonitorTables\<close> fail with a configuration error, whether or not the tables it names
  are in the computed subset; nothing is sent to the remote store and the client is
  unchanged. Which of the two configuration errors is reported depends on the order in
  which the map is enumerated.
\<close>

theorem nonempty_columns_rejected:
  assumes h: "client c = Some h"
    and mem: "(t, cols) \<in> set (tableCols c)"
    and cols: "cols \<noteq> []"
  shows "\<exists>e. MonitorTables D c = Inr (c, [], Inl e) \<and> is_config_error e
             \<and> (e = ColumnsNotSupported \<or> (\<exists>t'. e = TableNotSupported t' (db c)))"
proof -
  obtain tables where ft: "filterTablesFromSchema D c = Inr tables"
    using filterTablesFromSchema_live[OF h, of D] by auto
  have ne: "tableCols c \<noteq> []" using mem by auto
  have "checkTableCols (supportedTableMaps tables) (db c) (tableCols c) \<noteq> None"
    using mem cols by (auto simp: checkTableCols_None_iff)
  then obtain e where e: "checkTableCols (supportedTableMaps tables) (db c) (tableCols c) = Some e"
    by auto
  from checkTableCols_Some[OF e]
  have kind: "e = ColumnsNotSupported \<or> (\<exists>t'. e = TableNotSupported t' (db c))" by auto
  then have "is_config_error e" by auto
  moreover have "MonitorTables D c = Inr (c, [], Inl e)"
    using e by (simp add: MonitorTables_restricted[OF h ne ft])
  ultimately show ?thesis using kind by blast
qed

theorem nonempty_columns_rejected_witness:
  "MonitorTables example_deps (example_client\<lparr>tableCols := [(''ACL'', [''match''])]\<rparr>)
     = Inr (example_client\<lparr>tableCols := [(''ACL'', [''match''])]\<rparr>, [], Inl ColumnsNotSupported)
   \<and> MonitorTables example_deps (example_client\<lparr>tableCols := [(''Bogus'', [''x''])]\<rparr>)
     = Inr (example_client\<lparr>tableCols := [(''Bogus'', [''x''])]\<rparr>, [],
            Inl (TableNotSupported ''Bogus'' DBNB))"
proof -
  let ?c = "example_client\<lparr>tableCols := [(''ACL'', [''match''])]\<rparr>"
  let ?b = "example_client\<lparr>tableCols := [(''Bogus'', [''x''])]\<rparr>"
  have hc: "client ?c = Some example_handle" and hb: "client ?b = Some example_handle"
    by (simp_all add: example_client_def)
  have mc: "(''ACL'', [''match'']) \<in> set (tableCols ?c)"
    and mb: "(''Bogus'', [''x'']) \<in> set (tableCols ?b)" by simp_all
  have nc: "[''match''] \<noteq> []" and nb: "[''x''] \<noteq> []" by simp_all
  have ftc: "filterTablesFromSchema example_deps ?c = Inr [''Logical_Switch'', ''ACL'']"
    and ftb: "filterTablesFromSchema example_deps ?b = Inr [''Logical_Switch'', ''ACL'']"
    by (simp_all add: filterTablesFromSchema_def GetSchema_def example_client_def
        example_handle_def example_deps_def DBNB_def)
  have c1: "MonitorTables example_deps ?c \<noteq> Inr (?c, [], Inl (TableNotSupported t' d))" for t' d
    using ftc by (simp add: MonitorTables_def supportedTableMaps_def)
  have b1: "MonitorTables example_deps ?b \<noteq> Inr (?b, [], Inl ColumnsNotSupported)"
    using ftb by (simp add: MonitorTables_def supportedTableMaps_def)
  have b2: "MonitorTables example_deps ?b = Inr (?b, [], Inl (TableNotSupported t' d))
      \<Longrightarrow> t' = ''Bogus'' \<and> d = DBNB" for t' d
    using ftb by (simp add: MonitorTables_def supportedTableMaps_def example_client_def)
  from nonempty_columns_rejected[OF hc mc nc, of example_deps] c1
  have r1: "MonitorTables example_deps ?c = Inr (?c, [], Inl ColumnsNotSupported)" by auto
  from nonempty_columns_rejected[OF hb mb nb, of example_deps] b1 b2
  have r2: "MonitorTables example_deps ?b = Inr (?b, [], Inl (TableNotSupported ''Bogus'' DBNB))"
    by auto
  show ?thesis using r1 r2 by simp
qed





lemma MonitorTables_negotiated:
  "MonitorTables D c =
     (case negotiateTables D c of
        Inl f \<Rightarrow> Inl f
      | Inr (Inl e) \<Rightarrow> Inr (c, [], Inl e)
      | Inr (Inr c1) \<Rightarrow>
          (case client c1 of
             None \<Rightarrow> Inl NilDereference
           | Some h \<Rightarrow>
               Inr (c1, [EffMonitor (db c1) (monitorRequests (tableCols c1))],
                    libMonitor h (db c1) (monitorRequests (tableCols c1)))))"
  by (simp add: MonitorTables_def negotiateTables_def Let_def split: sum.splits option.splits)

lemma negotiateTables_live:
  assumes h: "client c = Some h"
  shows "\<exists>tables. filterTablesFromSchema D c = Inr tables
          \<and> negotiateTables D c =
              Inr (if tableCols c \<noteq> []
                   then (case checkTableCols (supportedTableMaps tables) (db c) (tableCols c) of
                           Some e \<Rightarrow> Inl e
                         | None \<Rightarrow> Inr c)
                   else Inr (c\<lparr>tableCols := defaultTableCols tables\<rparr>))"
proof -
  obtain tables where ft: "filterTablesFromSchema D c = Inr tables"
    using filterTablesFromSchema_live[OF h, of D] by auto
  then show ?thesis by (simp add: negotiateTables_def)
qed

lemma negotiateTables_ok:
  assumes neg: "negotiateTables D c = Inr (Inr c1)"
  shows "\<exists>h tables. client c = Some h \<and> filterTablesFromSchema D c = Inr tables
           \<and> client c1 = Some h \<and> db c1 = db c
           \<and> (tableCols c \<noteq> [] \<longrightarrow> c1 = c
                  \<and> checkTableCols (supportedTableMaps tables) (db c) (tableCols c) = None)
           \<and> (tableCols c = [] \<longrightarrow> c1 = c\<lparr>tableCols := defaultTableCols tables\<rparr>)"
proof -
  from neg obtain tables where ft: "filterTablesFromSchema D c = Inr tables"
    by (auto simp: negotiateTables_def split: sum.splits)
  then obtain h where h: "client c = Some h"
    using filterTablesFromSchema_client by blast
  show ?thesis
  proof (cases "tableCols c = []")
    case True
    with neg ft have "c1 = c\<lparr>tableCols := defaultTableCols tables\<rparr>"
      by (auto simp: negotiateTables_def)
    with h ft True show ?thesis by simp
  next
    case False
    with neg ft have "checkTableCols (supportedTableMaps tables) (db c) (tableCols c) = None"
      and "c1 = c"
      by (auto simp: negotiateTables_def split: option.splits)
    with h ft False show ?thesis by simp
  qed
qed



section \<open>Properties of the connection lifecycle\<close>

lemma MonitorTables_live:
  assumes h: "client c = Some h"
  shows "\<exists>c1 effs res. MonitorTables D c = Inr (c1, effs, res)
           \<and> c1 = c\<lparr>tableCols := tableCols c1\<rparr>
           \<and> (\<forall>e. res = Inl e \<longrightarrow> e \<noteq> InvalidDb)
           \<and> (\<forall>x. EffRegister x \<notin> set effs) \<and> (\<forall>x. EffDisconnect x \<notin> set effs)"
proof -
  obtain tables where ft: "filterTablesFromSchema D c = Inr tables"
    using filterTablesFromSchema_live[OF h, of D] by auto
  have lib: "\<forall>e. libMonitor h d r = Inl e \<longrightarrow> e \<noteq> InvalidDb" for d r
    by (auto simp: libMonitor_def split: sum.splits)
  show ?thesis
  proof (cases "tableCols c = []")
    case True
    show ?thesis
      using lib by (simp add: MonitorTables_default[OF h True ft])
  next
    case False
    show ?thesis
    proof (cases "checkTableCols (supportedTableMaps tables) (db c) (tableCols c)")
      case None
      then show ?thesis
        using lib by (simp add: MonitorTables_restricted[OF h False ft])
    next
      case (Some e)
      from checkTableCols_Some[OF Some] have "e \<noteq> InvalidDb" by auto
      with Some show ?thesis
        by (simp add: MonitorTables_restricted[OF h False ft])
    qed
  qed
qed

lemma connect_refused:
  "dl (addr c) (tlsConfig c) = Inl m \<Longrightarrow>
     connect D dl c = Inr (c, [EffConnect (addr c) (tlsConfig c)], Some (LibError m))"
  by (simp add: connect_def)

lemma connect_opened:
  assumes dial: "dl (addr c) (tlsConfig c) = Inr h"
  shows "\<exists>c1 effs res. MonitorTables D (c\<lparr>client := Some h\<rparr>) = Inr (c1, effs, res)
           \<and> c1 = c\<lparr>client := Some h, tableCols := tableCols c1\<rparr>
           \<and> (\<forall>e. res = Inl e \<longrightarrow> e \<noteq> InvalidDb)
           \<and> (\<forall>x. EffRegister x \<notin> set effs) \<and> (\<forall>x. EffDisconnect x \<notin> set effs)
           \<and> connect D dl c =
               (case res of
                  Inl err \<Rightarrow>
                    Inr (c1\<lparr>client := None\<rparr>,
                         EffConnect (addr c) (tlsConfig c) # effs @ [EffDisconnect (conn_id h)],
                         Some err)
                | Inr initial \<Rightarrow>
                    Inr (c1\<lparr>cache := populateCache D initial (cache c1)\<rparr>,
                         EffConnect (addr c) (tlsConfig c) # effs @ [EffRegister (conn_id h)],
                         None))"
proof -
  have live: "client (c\<lparr>client := Some h\<rparr>) = Some h" by simp
  from MonitorTables_live[OF live, of D] obtain c1 effs res where
    run: "MonitorTables D (c\<lparr>client := Some h\<rparr>) = Inr (c1, effs, res)"
    and fr: "c1 = c\<lparr>client := Some h\<rparr>\<lparr>tableCols := tableCols c1\<rparr>"
    and ne: "\<forall>e. res = Inl e \<longrightarrow> e \<noteq> InvalidDb"
    and nr: "\<forall>x. EffRegister x \<notin> set effs" and nd: "\<forall>x. EffDisconnect x \<notin> set effs"
    by blast
  have cl: "client c1 = Some h" by (subst fr) simp
  have "connect D dl c =
               (case res of
                  Inl err \<Rightarrow>
                    Inr (c1\<lparr>client := None\<rparr>,
                         EffConnect (addr c) (tlsConfig c) # effs @ [EffDisconnect (conn_id h)],
                         Some err)
                | Inr initial \<Rightarrow>
                    Inr (c1\<lparr>cache := populateCache D initial (cache c1)\<rparr>,
                         EffConnect (addr c) (tlsConfig c) # effs @ [EffRegister (conn_id h)],
                         None))"
    by (simp add: connect_def dial run cl split: sum.splits)
  with run fr ne nr nd show ?thesis by auto
qed

lemma connect_shape:
  "\<exists>c' effs r. connect D dl c = Inr (c', EffConnect (addr c) (tlsConfig c) # effs, r)
       \<and> db c' = db c \<and> addr c' = addr c \<and> tlsConfig c' = tlsConfig c \<and> r \<noteq> Some InvalidDb"
proof (cases "dl (addr c) (tlsConfig c)")
  case (Inl m)
  then show ?thesis by (simp add: connect_refused)
next
  case (Inr h)
  from connect_opened[where dl=dl and c=c and h=h and D=D, OF Inr] obtain c1 effs res where
    fr: "c1 = c\<lparr>client := Some h, tableCols := tableCols c1\<rparr>"
    and ne: "\<forall>e. res = Inl e \<longrightarrow> e \<noteq> InvalidDb"
    and eq: "connect D dl c =
               (case res of
                  Inl err \<Rightarrow>
                    Inr (c1\<lparr>client := None\<rparr>,
                         EffConnect (addr c) (tlsConfig c) # effs @ [EffDisconnect (conn_id h)],
                         Some err)
                | Inr initial \<Rightarrow>
                    Inr (c1\<lparr>cache := populateCache D initial (cache c1)\<rparr>,
                         EffConnect (addr c) (tlsConfig c) # effs @ [EffRegister (conn_id h)],
                         None))"
    by blast
  have f: "db c1 = db c" "addr c1 = addr c" "tlsConfig c1 = tlsConfig c"
    by (subst fr, simp)+
  show ?thesis
  proof (cases res)
    case (Inl err)
    with eq ne f show ?thesis by simp
  next
    case (Inr initial)
    with eq f show ?thesis by simp
  qed
qed

lemma connect_failed_after_open:
  assumes dial: "dl (addr c) (tlsConfig c) = Inr h"
  shows "\<exists>c' effs r. connect D dl c = Inr (c', effs, r)
          \<and> (\<forall>err. r = Some err \<longrightarrow>
                client c' = None
              \<and> effs \<noteq> [] \<and> last effs = EffDisconnect (conn_id h)
              \<and> EffRegister (conn_id h) \<notin> set effs
              \<and> cache c' = cache c)"
proof -
  from connect_opened[where dl=dl and c=c and h=h and D=D, OF dial] obtain c1 effs res where
    fr: "c1 = c\<lparr>client := Some h, tableCols := tableCols c1\<rparr>"
    and nr: "\<forall>x. EffRegister x \<notin> set effs"
    and eq: "connect D dl c =
               (case res of
                  Inl err \<Rightarrow>
                    Inr (c1\<lparr>client := None\<rparr>,
                         EffConnect (addr c) (tlsConfig c) # effs @ [EffDisconnect (conn_id h)],
                         Some err)
                | Inr initial \<Rightarrow>
                    Inr (c1\<lparr>cache := populateCache D initial (cache c1)\<rparr>,
                         EffConnect (addr c) (tlsConfig c) # effs @ [EffRegister (conn_id h)],
                         None))"
    by blast
  have ca: "cache c1 = cache c" by (subst fr) simp
  show ?thesis
  proof (cases res)
    case (Inl err)
    let ?effs = "EffConnect (addr c) (tlsConfig c) # effs @ [EffDisconnect (conn_id h)]"
    have run: "connect D dl c = Inr (c1\<lparr>client := None\<rparr>, ?effs, Some err)"
      using eq Inl by simp
    have "EffRegister (conn_id h) \<notin> set ?effs" using nr by simp
    with run ca show ?thesis by simp
  next
    case (Inr initial)
    with eq show ?thesis by simp
  qed
qed

lemma NewClient_connect_failed:
  "resolveDb (Db cfg) = Inr d \<Longrightarrow> connect D dl (new_ovndb d cfg) = Inr (c', effs, Some err) \<Longrightarrow>
     NewClient D dl cfg = Inr (effs, Inl err)"
  by (simp add: NewClient_def)

lemma connect_after_open:
  assumes dial: "dl (addr c) (tlsConfig c) = Inr h"
  shows "connect D dl c =
     (case negotiateTables D (c\<lparr>client := Some h\<rparr>) of
        Inl f \<Rightarrow> Inl f
      | Inr (Inl e) \<Rightarrow>
          Inr (c\<lparr>client := None\<rparr>,
               [EffConnect (addr c) (tlsConfig c), EffDisconnect (conn_id h)], Some e)
      | Inr (Inr c1) \<Rightarrow>
          (case Monitor h (db c) (monitorRequests (tableCols c1)) of
             Inl m \<Rightarrow>
               Inr (c1\<lparr>client := None\<rparr>,
                    [EffConnect (addr c) (tlsConfig c),
                     EffMonitor (db c) (monitorRequests (tableCols c1)),
                     EffDisconnect (conn_id h)],
                    Some (LibError m))
           | Inr u \<Rightarrow>
               Inr (c1\<lparr>cache := populateCache D u (cache c1)\<rparr>,
                    [EffConnect (addr c) (tlsConfig c),
                     EffMonitor (db c) (monitorRequests (tableCols c1)),
                     EffRegister (conn_id h)],
                    None)))"
proof (cases "negotiateTables D (c\<lparr>client := Some h\<rparr>)")
  case (Inl f)
  then show ?thesis by (simp add: connect_def dial MonitorTables_negotiated)
next
  case (Inr r)
  show ?thesis
  proof (cases r)
    case (Inl e)
    with Inr show ?thesis by (simp add: connect_def dial MonitorTables_negotiated)
  next
    case (Inr c1)
    with \<open>negotiateTables D (c\<lparr>client := Some h\<rparr>) = Inr r\<close>
    have neg: "negotiateTables D (c\<lparr>client := Some h\<rparr>) = Inr (Inr c1)" by simp
    from negotiateTables_ok[OF neg] have h1: "client c1 = Some h" and d1: "db c1 = db c"
      by auto
    show ?thesis
      by (simp add: connect_def dial MonitorTables_negotiated neg h1 d1 libMonitor_def
          split: sum.splits)
  qed
qed

lemma negotiateTables_total:
  "client c = Some h \<Longrightarrow> \<exists>r. negotiateTables D c = Inr r"
  using negotiateTables_live[of c h D] by auto

text \<open>
  Claim C5. Once the transport is open, \<open>connect\<close> is determined by the two steps that
  can fail. If the negotiation fails, \<open>connect\<close> returns that configuration error, having
  disconnected the transport and set the handle to nil, and nothing was sent. If the
  negotiation succeeds and the subscription fails, \<open>connect\<close> returns the subscription's
  error, again after disconnecting and with the handle nil. Otherwise the cache is bulk
  loaded (a step that hands no error back to \<open>connect\<close>), the notification handler is
  registered and nil is returned. In every case in which \<open>connect\<close> returns an error,
  the last thing it did was to disconnect that transport, the handle is nil, no handler
  was registered and the cache is untouched; on a first connect \<open>NewClient\<close> returns
  that error and no client.
\<close>

theorem connect_failure_tears_down:
  assumes dial: "dl (addr c) (tlsConfig c) = Inr h"
  shows "(\<exists>r. negotiateTables D (c\<lparr>client := Some h\<rparr>) = Inr r)
       \<and> (\<forall>e. negotiateTables D (c\<lparr>client := Some h\<rparr>) = Inr (Inl e) \<longrightarrow>
             connect D dl c =
               Inr (c\<lparr>client := None\<rparr>,
                    [EffConnect (addr c) (tlsConfig c), EffDisconnect (conn_id h)], Some e))
       \<and> (\<forall>c1 m. negotiateTables D (c\<lparr>client := Some h\<rparr>) = Inr (Inr c1)
                  \<and> Monitor h (db c) (monitorRequests (tableCols c1)) = Inl m \<longrightarrow>
             connect D dl c =
               Inr (c1\<lparr>client := None\<rparr>,
                    [EffConnect (addr c) (tlsConfig c),
                     EffMonitor (db c) (monitorRequests (tableCols c1)),
                     EffDisconnect (conn_id h)],
                    Some (LibError m)))
       \<and> (\<forall>c1 u. negotiateTables D (c\<lparr>client := Some h\<rparr>) = Inr (Inr c1)
                  \<and> Monitor h (db c) (monitorRequests (tableCols c1)) = Inr u \<longrightarrow>
             connect D dl c =
               Inr (c1\<lparr>cache := populateCache D u (cache c1)\<rparr>,
                    [EffConnect (addr c) (tlsConfig c),
                     EffMonitor (db c) (monitorRequests (tableCols c1)),
                     EffRegister (conn_id h)],
                    None))
       \<and> (\<exists>c' effs r. connect D dl c = Inr (c', effs, r)
            \<and> (\<forall>err. r = Some err \<longrightarrow>
                  client c' = None
                \<and> effs \<noteq> [] \<and> last effs = EffDisconnect (conn_id h)
                \<and> EffRegister (conn_id h) \<notin> set effs
                \<and> cache c' = cache c
                \<and> (\<forall>cfg d. resolveDb (Db cfg) = Inr d \<and> c = new_ovndb d cfg \<longrightarrow>
                      NewClient D dl cfg = Inr (effs, Inl err))))"
proof -
  have live: "client (c\<lparr>client := Some h\<rparr>) = Some h" by simp
  have total: "\<exists>r. negotiateTables D (c\<lparr>client := Some h\<rparr>) = Inr r"
    by (rule negotiateTables_total[OF live])
  note eq = connect_after_open[where dl=dl and c=c and h=h and D=D, OF dial]
  have a: "\<forall>e. negotiateTables D (c\<lparr>client := Some h\<rparr>) = Inr (Inl e) \<longrightarrow>
             connect D dl c =
               Inr (c\<lparr>client := None\<rparr>,
                    [EffConnect (addr c) (tlsConfig c), EffDisconnect (conn_id h)], Some e)"
    by (simp add: eq)
  have b: "\<forall>c1 m. negotiateTables D (c\<lparr>client := Some h\<rparr>) = Inr (Inr c1)
                  \<and> Monitor h (db c) (monitorRequests (tableCols c1)) = Inl m \<longrightarrow>
             connect D dl c =
               Inr (c1\<lparr>client := None\<rparr>,
                    [EffConnect (addr c) (tlsConfig c),
                     EffMonitor (db c) (monitorRequests (tableCols c1)),
                     EffDisconnect (conn_id h)],
                    Some (LibError m))"
    by (simp add: eq)
  have s: "\<forall>c1 u. negotiateTables D (c\<lparr>client := Some h\<rparr>) = Inr (Inr c1)
                  \<and> Monitor h (db c) (monitorRequests (tableCols c1)) = Inr u \<longrightarrow>
             connect D dl c =
               Inr (c1\<lparr>cache := populateCache D u (cache c1)\<rparr>,
                    [EffConnect (addr c) (tlsConfig c),
                     EffMonitor (db c) (monitorRequests (tableCols c1)),
                     EffRegister (conn_id h)],
                    None)"
    by (simp add: eq)
  from connect_failed_after_open[where dl=dl and c=c and h=h and D=D, OF dial]
  obtain c' effs r where run: "connect D dl c = Inr (c', effs, r)"
    and fail: "\<forall>err. r = Some err \<longrightarrow>
                client c' = None
              \<and> effs \<noteq> [] \<and> last effs = EffDisconnect (conn_id h)
              \<and> EffRegister (conn_id h) \<notin> set effs
              \<and> cache c' = cache c"
    by blast
  have "\<forall>err. r = Some err \<longrightarrow>
          (\<forall>cfg d. resolveDb (Db cfg) = Inr d \<and> c = new_ovndb d cfg \<longrightarrow>
                    NewClient D dl cfg = Inr (effs, Inl err))"
    using run by (auto intro: NewClient_connect_failed)
  with run fail have g: "\<exists>c' effs r. connect D dl c = Inr (c', effs, r)
            \<and> (\<forall>err. r = Some err \<longrightarrow>
                  client c' = None
                \<and> effs \<noteq> [] \<and> last effs = EffDisconnect (conn_id h)
                \<and> EffRegister (conn_id h) \<notin> set effs
                \<and> cache c' = cache c
                \<and> (\<forall>cfg d. resolveDb (Db cfg) = Inr d \<and> c = new_ovndb d cfg \<longrightarrow>
                      NewClient D dl cfg = Inr (effs, Inl err)))"
    by blast
  show ?thesis using total a b s g by blast
qed

lemma example_bogus_connect:
  "connect example_deps example_dial
     (new_ovndb DBNB (example_cfg\<lparr>TableCols := [(''Bogus'', [])]\<rparr>))
   = Inr (new_ovndb DBNB (example_cfg\<lparr>TableCols := [(''Bogus'', [])]\<rparr>),
          [EffConnect ''tcp:127.0.0.1:6641'' None, EffDisconnect 1],
          Some (TableNotSupported ''Bogus'' DBNB))"
  by (simp add: connect_def MonitorTables_def filterTablesFromSchema_def GetSchema_def
      supportedTableMaps_def new_ovndb_def example_cfg_def example_dial_def
      example_handle_def example_deps_def)

theorem connect_failure_tears_down_witness:
  "connect example_deps example_dial
     (new_ovndb DBNB (example_cfg\<lparr>TableCols := [(''Bogus'', [])]\<rparr>))
   = Inr (new_ovndb DBNB (example_cfg\<lparr>TableCols := [(''Bogus'', [])]\<rparr>),
          [EffConnect ''tcp:127.0.0.1:6641'' None, EffDisconnect 1],
          Some (TableNotSupported ''Bogus'' DBNB))
   \<and> NewClient example_deps example_dial (example_cfg\<lparr>TableCols := [(''Bogus'', [])]\<rparr>)
       = Inr ([EffConnect ''tcp:127.0.0.1:6641'' None, EffDisconnect 1],
              Inl (TableNotSupported ''Bogus'' DBNB))
   \<and> connect example_deps
         (\<lambda>a t. Inr (example_handle\<lparr>Monitor := \<lambda>d r. Inl ''monitor failed''\<rparr>))
         (new_ovndb DBNB example_cfg)
       = Inr ((new_ovndb DBNB example_cfg)
                \<lparr>tableCols := [(''Logical_Switch'', []), (''ACL'', [])]\<rparr>,
              [EffConnect ''tcp:127.0.0.1:6641'' None,
               EffMonitor DBNB (monitorRequests [(''Logical_Switch'', []), (''ACL'', [])]),
               EffDisconnect 1],
              Some (LibError ''monitor failed''))
   \<and> NewClient example_deps
         (\<lambda>a t. Inr (example_handle\<lparr>Monitor := \<lambda>d r. Inl ''monitor failed''\<rparr>))
         example_cfg
       = Inr ([EffConnect ''tcp:127.0.0.1:6641'' None,
               EffMonitor DBNB (monitorRequests [(''Logical_Switch'', []), (''ACL'', [])]),
               EffDisconnect 1],
              Inl (LibError ''monitor failed''))"
proof -
  let ?tc = "[(''Logical_Switch'', []), (''ACL'', [])]"
  let ?cfg = "example_cfg\<lparr>TableCols := [(''Bogus'', [])]\<rparr>"
  let ?c = "new_ovndb DBNB ?cfg"
  let ?hf = "example_handle\<lparr>Monitor := \<lambda>d r. Inl ''monitor failed''\<rparr>"
  let ?dlf = "(\<lambda>a t. Inr ?hf) :: dial"
  let ?k = "new_ovndb DBNB example_cfg"
  have dial: "example_dial (addr ?c) (tlsConfig ?c) = Inr example_handle"
    by (simp add: example_dial_def)
  have dialf: "?dlf (addr ?k) (tlsConfig ?k) = Inr ?hf" by simp
  have res: "resolveDb (Db ?cfg) = Inr DBNB" "resolveDb (Db example_cfg) = Inr DBNB"
    by (simp_all add: resolveDb_def example_cfg_def)
  have id: "conn_id example_handle = 1" "conn_id ?hf = 1"
    by (simp_all add: example_handle_def)
  have f: "addr ?c = ''tcp:127.0.0.1:6641''" "tlsConfig ?c = None" "db ?c = DBNB"
    "addr ?k = ''tcp:127.0.0.1:6641''" "tlsConfig ?k = None" "db ?k = DBNB"
    "client ?c = None" "client ?k = None"
    by (simp_all add: new_ovndb_def example_cfg_def)
  have nega: "negotiateTables example_deps (?c\<lparr>client := Some example_handle\<rparr>)
      = Inr (Inl (TableNotSupported ''Bogus'' DBNB))"
    by (simp add: negotiateTables_def filterTablesFromSchema_def GetSchema_def
        supportedTableMaps_def new_ovndb_def example_cfg_def example_handle_def
        example_deps_def)
  have negb: "negotiateTables example_deps (?k\<lparr>client := Some ?hf\<rparr>)
      = Inr (Inr (?k\<lparr>client := Some ?hf, tableCols := ?tc\<rparr>))"
    by (simp add: negotiateTables_def filterTablesFromSchema_def GetSchema_def
        defaultTableCols_def new_ovndb_def example_cfg_def example_handle_def
        example_deps_def)
  have mon: "Monitor ?hf (db ?k) (monitorRequests (tableCols (?k\<lparr>client := Some ?hf, tableCols := ?tc\<rparr>)))
      = Inl ''monitor failed''" by simp
  have ca: "?c\<lparr>client := None\<rparr> = ?c" using f(7) by simp
  have cb: "?k\<lparr>client := Some ?hf, tableCols := ?tc\<rparr>\<lparr>client := None\<rparr> = ?k\<lparr>tableCols := ?tc\<rparr>"
    by (simp add: new_ovndb_def)
  note ta = connect_failure_tears_down[where dl=example_dial and c="?c" and h=example_handle
      and D=example_deps, OF dial]
  note tb = connect_failure_tears_down[where dl="?dlf" and c="?k" and h="?hf"
      and D=example_deps, OF dialf]
  from ta nega have ra: "connect example_deps example_dial ?c
      = Inr (?c, [EffConnect ''tcp:127.0.0.1:6641'' None, EffDisconnect 1],
             Some (TableNotSupported ''Bogus'' DBNB))"
    by (simp add: f id ca)
  from tb negb mon have rb: "connect example_deps ?dlf ?k
      = Inr (?k\<lparr>tableCols := ?tc\<rparr>,
             [EffConnect ''tcp:127.0.0.1:6641'' None, EffMonitor DBNB (monitorRequests ?tc),
              EffDisconnect 1],
             Some (LibError ''monitor failed''))"
    by (simp add: f id cb)
  from ta ra res(1) have na: "NewClient example_deps example_dial ?cfg
      = Inr ([EffConnect ''tcp:127.0.0.1:6641'' None, EffDisconnect 1],
             Inl (TableNotSupported ''Bogus'' DBNB))"
    by auto
  from tb rb res(2) have nb: "NewClient example_deps ?dlf example_cfg
      = Inr ([EffConnect ''tcp:127.0.0.1:6641'' None, EffMonitor DBNB (monitorRequests ?tc),
              EffDisconnect 1],
             Inl (LibError ''monitor failed''))"
    by auto
  show ?thesis using ra rb na nb by simp
qed

text \<open>
  Claim C10. \<open>Close\<close> never returns a non-nil error. With a live handle it disconnects
  and returns nil; with a nil handle it faults on the dereference. After a \<open>connect\<close> that
  failed once the transport was open, the handle is nil, so \<open>Close\<close> faults.
\<close>

theorem close_needs_live_handle:
  "(\<forall>c' effs e. Close c \<noteq> Inr (c', effs, Some e))
   \<and> (\<forall>h. client c = Some h \<longrightarrow> Close c = Inr (c, [EffDisconnect (conn_id h)], None))
   \<and> (client c = None \<longrightarrow> Close c = Inl NilDereference)
   \<and> (\<forall>D dl c0 h0 effs err.
         dl (addr c0) (tlsConfig c0) = Inr h0 \<and> connect D dl c0 = Inr (c, effs, Some err)
           \<longrightarrow> Close c = Inl NilDereference)"
proof -
  have a: "\<forall>c' effs e. Close c \<noteq> Inr (c', effs, Some e)"
    by (simp add: Close_def split: option.splits)
  have b: "\<forall>h. client c = Some h \<longrightarrow> Close c = Inr (c, [EffDisconnect (conn_id h)], None)"
    by (simp add: Close_def)
  have n: "client c = None \<longrightarrow> Close c = Inl NilDereference"
    by (simp add: Close_def)
  have d: "Close c = Inl NilDereference"
    if dial: "dl (addr c0) (tlsConfig c0) = Inr h0"
      and run: "connect D dl c0 = Inr (c, effs, Some err)" for D dl c0 h0 effs err
  proof -
    from connect_failed_after_open[where dl=dl and c=c0 and h=h0 and D=D, OF dial] run
    have "client c = None" by auto
    with n show ?thesis by simp
  qed
  show ?thesis using a b n d by blast
qed

theorem close_needs_live_handle_witness:
  "Close example_client = Inr (example_client, [EffDisconnect 1], None)
   \<and> Close (new_ovndb DBNB (example_cfg\<lparr>TableCols := [(''Bogus'', [])]\<rparr>)) = Inl NilDereference"
proof -
  let ?c0 = "new_ovndb DBNB (example_cfg\<lparr>TableCols := [(''Bogus'', [])]\<rparr>)"
  have live: "client example_client = Some example_handle"
    by (simp add: example_client_def)
  have dial: "example_dial (addr ?c0) (tlsConfig ?c0) = Inr example_handle"
    by (simp add: example_dial_def)
  have id: "conn_id example_handle = 1" by (simp add: example_handle_def)
  from close_needs_live_handle[of example_client] live id
  have l: "Close example_client = Inr (example_client, [EffDisconnect 1], None)" by simp
  from close_needs_live_handle[of ?c0] dial example_bogus_connect
  have "Close ?c0 = Inl NilDereference" by blast
  with l show ?thesis by simp
qed

section \<open>Properties of client creation and of the executor\<close>

lemma example_first_connect:
  "connect example_deps example_dial (new_ovndb DBNB example_cfg)
   = Inr ((new_ovndb DBNB example_cfg)
            \<lparr>client := Some example_handle,
             tableCols := [(''Logical_Switch'', []), (''ACL'', [])]\<rparr>,
          [EffConnect ''tcp:127.0.0.1:6641'' None,
           EffMonitor DBNB (monitorRequests [(''Logical_Switch'', []), (''ACL'', [])]),
           EffRegister 1],
          None)"
  by (simp add: connect_def MonitorTables_def filterTablesFromSchema_def GetSchema_def
      defaultTableCols_def libMonitor_def new_ovndb_def example_cfg_def example_dial_def
      example_handle_def example_deps_def)

text \<open>
  Claim C7, as stated, fails on the code: the empty string is a database identity other
  than the two fixed ones, and \<open>NewClient\<close> does not reject it. On the concrete deployment
  it connects, subscribes and returns a client.
\<close>

theorem new_client_empty_db_connects:
  "[] \<noteq> DBNB \<and> [] \<noteq> DBSB
   \<and> NewClient example_deps example_dial (example_cfg\<lparr>Db := []\<rparr>)
       = Inr ([EffConnect ''tcp:127.0.0.1:6641'' None,
               EffMonitor DBNB (monitorRequests [(''Logical_Switch'', []), (''ACL'', [])]),
               EffRegister 1],
              Inr ((new_ovndb DBNB example_cfg)
                     \<lparr>client := Some example_handle,
                      tableCols := [(''Logical_Switch'', []), (''ACL'', [])]\<rparr>))"
proof -
  have n: "new_ovndb DBNB (example_cfg\<lparr>Db := []\<rparr>) = new_ovndb DBNB example_cfg"
    by (simp add: new_ovndb_def)
  have r: "resolveDb [] = Inr DBNB" by (simp add: resolveDb_def DBNB_def DBSB_def)
  show ?thesis
    using example_first_connect by (simp add: NewClient_def r n) (simp add: DBNB_def DBSB_def)
qed

text \<open>
  Claim C7, amended. A database identity that is neither of the two fixed identities nor
  the empty string makes \<open>NewClient\<close> return the configuration error at once: it calls
  no collaborator, so no connection is attempted, no ticker is started and nothing is
  retried.
\<close>

theorem invalid_db_rejected:
  assumes "Db cfg \<noteq> DBNB" and "Db cfg \<noteq> DBSB" and "Db cfg \<noteq> []"
  shows "NewClient D dl cfg = Inr ([], Inl InvalidDb) \<and> is_config_error InvalidDb"
  using assms by (simp add: NewClient_def resolveDb_def)

theorem invalid_db_rejected_witness:
  "NewClient example_deps example_dial (example_cfg\<lparr>Db := ''OVN_IC_Northbound''\<rparr>)
     = Inr ([], Inl InvalidDb)"
proof -
  let ?cfg = "example_cfg\<lparr>Db := ''OVN_IC_Northbound''\<rparr>"
  have a: "Db ?cfg \<noteq> DBNB" and b: "Db ?cfg \<noteq> DBSB" and c: "Db ?cfg \<noteq> []"
    by (simp_all add: DBNB_def DBSB_def)
  show ?thesis using invalid_db_rejected[OF a b c] by simp
qed



text \<open>
  Claim C8. With zero operations \<open>Execute\<close> returns no error, \<open>ExecuteR\<close> returns the
  empty identifier list, and neither sends a transaction (nor touches the handle).
\<close>

theorem execute_nothing:
  assumes "concat (map Operations cmds) = []"
  shows "Execute c cmds = Inr ([], None) \<and> ExecuteR c cmds = Inr ([], Inr [])"
  using assms by (simp add: Execute_def ExecuteR_def execute_def executeR_def)

theorem execute_nothing_witness:
  "Execute example_client [] = Inr ([], None) \<and> ExecuteR example_client [] = Inr ([], Inr [])
   \<and> Execute (example_client\<lparr>client := None\<rparr>) [\<lparr>Operations = []\<rparr>] = Inr ([], None)"
proof -
  have a: "concat (map Operations ([] :: OvnCommand list)) = []" by simp
  have b: "concat (map Operations [\<lparr>Operations = []\<rparr>]) = []" by simp
  show ?thesis
    using execute_nothing[OF a, of example_client]
      execute_nothing[OF b, of "example_client\<lparr>client := None\<rparr>"] by simp
qed

section \<open>Properties of the reconnect loop\<close>

lemma go_int_id: "0 \<le> x \<Longrightarrow> x < 2 ^ 63 \<Longrightarrow> go_int x = x"
  by (simp add: go_int_def)

lemma connect_addr: "connect D dl c = Inr (c', effs, r) \<Longrightarrow> addr c' = addr c"
  using connect_shape[of D dl c] by auto

lemma reconnect_loop_failed:
  "connect D (dials i) c = Inr (c', effs, Some err) \<Longrightarrow>
     reconnect_loop D dials i c retry tr =
       reconnect_loop D dials (Suc i) c' (go_int (retry + 1))
         (tr @ effs @ failure_log (addr c') retry err)"
  by (subst reconnect_loop.simps) simp

lemma reconnect_loop_connected:
  "connect D (dials i) c = Inr (c', effs, None) \<Longrightarrow>
     reconnect_loop D dials i c retry tr =
       Some (Inr (c', tr @ effs @ [EffLog (LogReconnected (addr c') retry), EffTickerStop]))"
  by (subst reconnect_loop.simps) simp

lemma reconnect_loop_success:
  assumes "\<forall>k<n. connect D (dials (i + k)) (cs k) = Inr (cs (Suc k), effs k, Some (errs k))"
    and "connect D (dials (i + n)) (cs n) = Inr (c', effs n, None)"
    and "0 \<le> retry" and "retry + int n < 2 ^ 63"
  shows "reconnect_loop D dials i (cs 0) retry tr =
           Some (Inr (c', tr
             @ concat (map (\<lambda>k. effs k @ failure_log (addr (cs 0)) (retry + int k) (errs k))
                         [0..<n])
             @ effs n @ [EffLog (LogReconnected (addr (cs 0)) (retry + int n)), EffTickerStop]))"
  using assms
proof (induction n arbitrary: i cs effs errs retry tr)
  case 0
  then have run: "connect D (dials i) (cs 0) = Inr (c', effs 0, None)" by simp
  show ?case
    by (simp add: reconnect_loop_connected[where dials=dials and i=i, OF run]
        connect_addr[OF run])
next
  case (Suc n)
  from Suc.prems(1) have "connect D (dials (i + 0)) (cs 0) = Inr (cs (Suc 0), effs 0, Some (errs 0))"
    by blast
  then have first: "connect D (dials i) (cs 0) = Inr (cs (Suc 0), effs 0, Some (errs 0))"
    by simp
  have a1: "addr (cs (Suc 0)) = addr (cs 0)" by (rule connect_addr[OF first])
  have g: "go_int (retry + 1) = retry + 1"
    using Suc.prems(3,4) by (intro go_int_id) auto
  let ?cs = "\<lambda>k. cs (Suc k)" and ?effs = "\<lambda>k. effs (Suc k)" and ?errs = "\<lambda>k. errs (Suc k)"
  have p1: "\<forall>k<n. connect D (dials (Suc i + k)) (?cs k) = Inr (?cs (Suc k), ?effs k, Some (?errs k))"
  proof (intro allI impI)
    fix k assume "k < n"
    then have "Suc k < Suc n" by simp
    with Suc.prems(1)
    have "connect D (dials (i + Suc k)) (cs (Suc k)) = Inr (cs (Suc (Suc k)), effs (Suc k), Some (errs (Suc k)))"
      by blast
    then show "connect D (dials (Suc i + k)) (?cs k) = Inr (?cs (Suc k), ?effs k, Some (?errs k))"
      by simp
  qed
  have p2: "connect D (dials (Suc i + n)) (?cs n) = Inr (c', ?effs n, None)"
    using Suc.prems(2) by simp
  have p3: "0 \<le> retry + 1" using Suc.prems(3) by simp
  have p4: "retry + 1 + int n < 2 ^ 63" using Suc.prems(4) by simp
  have sh: "retry + 1 + int k = retry + int (Suc k)" for k by simp
  let ?f = "\<lambda>k. effs k @ failure_log (addr (cs 0)) (retry + int k) (errs k)"
  have ih: "reconnect_loop D dials (Suc i) (cs (Suc 0)) (retry + 1) (tr @ ?f 0) =
           Some (Inr (c', (tr @ ?f 0)
             @ concat (map (\<lambda>k. ?f (Suc k)) [0..<n])
             @ effs (Suc n)
             @ [EffLog (LogReconnected (addr (cs 0)) (retry + int (Suc n))), EffTickerStop]))"
    using Suc.IH[of "Suc i" ?cs ?effs ?errs "retry + 1" "tr @ ?f 0", OF p1 p2 p3 p4]
    by (simp only: a1 sh)
  have step: "reconnect_loop D dials i (cs 0) retry tr
      = reconnect_loop D dials (Suc i) (cs (Suc 0)) (retry + 1) (tr @ ?f 0)"
    using reconnect_loop_failed[where dials=dials and i=i and retry=retry and tr=tr, OF first]
    by (simp only: g a1) simp
  have cat: "concat (map ?f [0..<Suc n]) = ?f 0 @ concat (map (\<lambda>k. ?f (Suc k)) [0..<n])"
    by (simp only: map_upt_Suc concat.simps)
  show ?case
    by (simp only: step ih cat append_assoc)
qed

lemma reconnect_loop_never:
  assumes ret: "reconnect_loop D dials i c retry tr = Some y"
  shows "\<not> (\<exists>cs. cs i = c \<and>
              (\<forall>k\<ge>i. \<exists>fx e. connect D (dials k) (cs k) = Inr (cs (Suc k), fx, Some e)))"
proof (rule reconnect_loop.raw_induct
    [where P = "\<lambda>D dials i c (retry :: int) (tr :: effect list)
                   (y :: fault + ovndb \<times> effect list).
                 \<not> (\<exists>cs. cs i = c \<and>
                      (\<forall>k\<ge>i. \<exists>fx e. connect D (dials k) (cs k)
                                            = Inr (cs (Suc k), fx, Some e)))",
     OF _ ret], goal_cases)
  case (1 loop D dials i c retry tr y)
  show ?case
  proof
    assume "\<exists>cs. cs i = c \<and>
              (\<forall>k\<ge>i. \<exists>fx e. connect D (dials k) (cs k) = Inr (cs (Suc k), fx, Some e))"
    then obtain cs where c: "cs i = c"
      and all: "\<forall>k\<ge>i. \<exists>fx e. connect D (dials k) (cs k) = Inr (cs (Suc k), fx, Some e)"
      by blast
    from all obtain fx e where first: "connect D (dials i) (cs i) = Inr (cs (Suc i), fx, Some e)"
      by blast
    with 1(2) c have next_call: "loop D dials (Suc i) (cs (Suc i)) (go_int (retry + 1))
                        (tr @ fx @ failure_log (addr (cs (Suc i))) retry e) = Some y"
      by simp
    have later: "\<forall>k\<ge>Suc i. \<exists>fx e. connect D (dials k) (cs k) = Inr (cs (Suc k), fx, Some e)"
      using all Suc_leD by blast
    have ex: "\<exists>cs'. cs' (Suc i) = cs (Suc i) \<and>
              (\<forall>k\<ge>Suc i. \<exists>fx e. connect D (dials k) (cs' k) = Inr (cs' (Suc k), fx, Some e))"
      using later by blast
    show False by (rule notE[OF 1(1)[OF next_call] ex])
  qed
qed

text \<open>
  Claim C6. \<open>cs k\<close> is the client before the attempt at tick \<open>k\<close>. The loop starts a
  ticker of 500 ms and logs the disconnect. If the attempts at ticks \<open>0 .. n - 1\<close> fail
  and the one at tick \<open>n\<close> succeeds, the loop returns after exactly these \<open>n + 1\<close>
  attempts, having logged each failure as \<open>failure_log\<close> prescribes, then the number \<open>n\<close>
  of retries, and having stopped the ticker. If every attempt fails, the loop never
  returns, whatever the number of attempts: there is no ceiling. The failures numbered
  \<open>0 .. 9\<close> are logged, the one numbered \<open>10\<close> is logged with the notice that logging
  stops, and later ones are not logged. The counter is a Go \<open>int\<close>, so the statement about
  the log is for fewer than \<open>2 ^ 63\<close> failures.
\<close>

theorem reconnect_retries_until_success:
  "((\<forall>k<n. connect D (dials k) (cs k) = Inr (cs (Suc k), effs k, Some (errs k)))
      \<and> connect D (dials n) (cs n) = Inr (c', effs n, None) \<and> int n < 2 ^ 63
     \<longrightarrow> reconnect D dials (cs 0) =
           Some (Inr (c', [EffNewTicker 500, EffLog (LogDisconnected (addr (cs 0)))]
             @ concat (map (\<lambda>k. effs k @ failure_log (addr (cs 0)) (int k) (errs k)) [0..<n])
             @ effs n @ [EffLog (LogReconnected (addr (cs 0)) (int n)), EffTickerStop])))
   \<and> ((\<forall>k. \<exists>fx e. connect D (dials k) (cs k) = Inr (cs (Suc k), fx, Some e))
     \<longrightarrow> reconnect D dials (cs 0) = None)
   \<and> (\<forall>a e k. failure_log a (int k) e =
         (if k < 10 then [EffLog (LogReconnectFailed a e)]
          else if k = 10 then [EffLog (LogReconnectSuppressed a e)]
          else []))"
proof (intro conjI impI)
  assume h: "(\<forall>k<n. connect D (dials k) (cs k) = Inr (cs (Suc k), effs k, Some (errs k)))
      \<and> connect D (dials n) (cs n) = Inr (c', effs n, None) \<and> int n < 2 ^ 63"
  then have p1: "\<forall>k<n. connect D (dials (0 + k)) (cs k) = Inr (cs (Suc k), effs k, Some (errs k))"
    and p2: "connect D (dials (0 + n)) (cs n) = Inr (c', effs n, None)"
    and p4: "0 + int n < 2 ^ 63"
    by simp_all
  have p3: "(0::int) \<le> 0" by simp
  from reconnect_loop_success[where i=0 and retry=0, OF p1 p2 p3 p4]
  show "reconnect D dials (cs 0) =
           Some (Inr (c', [EffNewTicker 500, EffLog (LogDisconnected (addr (cs 0)))]
             @ concat (map (\<lambda>k. effs k @ failure_log (addr (cs 0)) (int k) (errs k)) [0..<n])
             @ effs n @ [EffLog (LogReconnected (addr (cs 0)) (int n)), EffTickerStop]))"
    by (simp add: reconnect_def)
next
  assume all: "\<forall>k. \<exists>fx e. connect D (dials k) (cs k) = Inr (cs (Suc k), fx, Some e)"
  then have ex: "\<exists>cs'. cs' 0 = cs 0 \<and>
      (\<forall>k\<ge>0. \<exists>fx e. connect D (dials k) (cs' k) = Inr (cs' (Suc k), fx, Some e))"
    by blast
  show "reconnect D dials (cs 0) = None"
  proof (cases "reconnect D dials (cs 0)")
    case None
    then show ?thesis .
  next
    case (Some y)
    then have "reconnect_loop D dials 0 (cs 0) 0
                 [EffNewTicker 500, EffLog (LogDisconnected (addr (cs 0)))] = Some y"
      by (simp add: reconnect_def)
    from notE[OF reconnect_loop_never[OF this] ex] show ?thesis .
  qed
next
  show "\<forall>a e k. failure_log a (int k) e =
         (if k < 10 then [EffLog (LogReconnectFailed a e)]
          else if k = 10 then [EffLog (LogReconnectSuppressed a e)]
          else [])"
    by (simp add: failure_log_def)
qed

theorem reconnect_retries_until_success_witness:
  "reconnect example_deps example_dials example_client =
     Some (Inr (example_client\<lparr>tableCols := [(''Logical_Switch'', []), (''ACL'', [])]\<rparr>,
       [EffNewTicker 500,
        EffLog (LogDisconnected ''tcp:127.0.0.1:6641''),
        EffConnect ''tcp:127.0.0.1:6641'' None,
        EffLog (LogReconnectFailed ''tcp:127.0.0.1:6641'' (LibError ''connection refused'')),
        EffConnect ''tcp:127.0.0.1:6641'' None,
        EffLog (LogReconnectFailed ''tcp:127.0.0.1:6641'' (LibError ''connection refused'')),
        EffConnect ''tcp:127.0.0.1:6641'' None,
        EffMonitor DBNB (monitorRequests [(''Logical_Switch'', []), (''ACL'', [])]),
        EffRegister 1,
        EffLog (LogReconnected ''tcp:127.0.0.1:6641'' 2),
        EffTickerStop]))
   \<and> reconnect example_deps refusing_dials example_client = None
   \<and> failure_log ''a'' (int 10) InvalidDb = [EffLog (LogReconnectSuppressed ''a'' InvalidDb)]
   \<and> failure_log ''a'' (int 11) InvalidDb = []"
proof -
  let ?a = "''tcp:127.0.0.1:6641''"
  let ?tc = "[(''Logical_Switch'', []), (''ACL'', [])]"
  let ?ok = "[EffConnect ?a None, EffMonitor DBNB (monitorRequests ?tc), EffRegister 1]"
  let ?effs = "\<lambda>k::nat. if k < 2 then [EffConnect ?a None] else ?ok"
  let ?errs = "\<lambda>k::nat. LibError ''connection refused''"
  let ?cs = "\<lambda>k::nat. example_client"
  have refused: "connect example_deps refusing_dial example_client
      = Inr (example_client, [EffConnect ?a None], Some (LibError ''connection refused''))"
    by (simp add: connect_def refusing_dial_def example_client_def)
  have accepted: "connect example_deps example_dial example_client
      = Inr (example_client\<lparr>tableCols := ?tc\<rparr>, ?ok, None)"
    by (simp add: connect_def MonitorTables_def filterTablesFromSchema_def GetSchema_def
      defaultTableCols_def libMonitor_def example_client_def example_dial_def
      example_handle_def example_deps_def)
  have h1: "(\<forall>k<Suc (Suc 0). connect example_deps (example_dials k) (?cs k)
                = Inr (?cs (Suc k), ?effs k, Some (?errs k)))
      \<and> connect example_deps (example_dials (Suc (Suc 0))) (?cs (Suc (Suc 0)))
          = Inr (example_client\<lparr>tableCols := ?tc\<rparr>, ?effs (Suc (Suc 0)), None)
      \<and> int (Suc (Suc 0)) < 2 ^ 63"
    by (simp add: example_dials_def refused accepted)
  have h2: "\<forall>k. \<exists>fx e. connect example_deps (refusing_dials k) (?cs k)
                = Inr (?cs (Suc k), fx, Some e)"
    by (simp add: refusing_dials_def refused)
  have ad: "addr example_client = ?a" by (simp add: example_client_def)
  from reconnect_retries_until_success[where D=example_deps and dials=example_dials
      and cs="?cs" and n="Suc (Suc 0)" and effs="?effs" and errs="?errs"
      and c'="example_client\<lparr>tableCols := ?tc\<rparr>"] h1
  have r1: "reconnect example_deps example_dials example_client =
     Some (Inr (example_client\<lparr>tableCols := ?tc\<rparr>,
       [EffNewTicker 500, EffLog (LogDisconnected ?a),
        EffConnect ?a None, EffLog (LogReconnectFailed ?a (LibError ''connection refused'')),
        EffConnect ?a None, EffLog (LogReconnectFailed ?a (LibError ''connection refused'')),
        EffConnect ?a None, EffMonitor DBNB (monitorRequests ?tc), EffRegister 1,
        EffLog (LogReconnected ?a 2), EffTickerStop]))"
    by (simp add: ad failure_log_def)
  from reconnect_retries_until_success[where D=example_deps and dials=refusing_dials
      and cs="?cs"] h2
  have r2: "reconnect example_deps refusing_dials example_client = None"
    by blast
  have r3: "failure_log ''a'' (int 10) InvalidDb = [EffLog (LogReconnectSuppressed ''a'' InvalidDb)]"
    and r4: "failure_log ''a'' (int 11) InvalidDb = []"
    by (simp_all add: failure_log_def)
  show ?thesis using r1 r2 r3 r4 by blast
qed

end
